theory Spec2Isabelle
  imports Complex_Main
begin

section \<open>Conventions of the embedding\<close>

text \<open>
  The module \<^verbatim>\<open>helper.py\<close> is read as Python 3: \<^verbatim>\<open>/\<close> is true division, so
  \<^verbatim>\<open>rows / 2\<close> and \<^verbatim>\<open>max_x/2\<close> are floats. Python floats are modelled by \<^typ>\<open>real\<close>
  (rounding is not modelled), Python integers by \<^typ>\<open>int\<close> or \<^typ>\<open>nat\<close>.

  Every exception the code can raise is a value of \<open>py_error\<close>; a function that can raise
  returns \<open>py_error + result\<close>, with \<open>Inl\<close> the exception.
\<close>

datatype py_error =
    NameError | ValueError | IndexError | TypeError | AttributeError
  | ZeroDivisionError | IOError | cv2_error

subsection \<open>Images, array objects and the store\<close>

text \<open>
  The contents of a three-dimensional array: rows, columns, channels. Array objects are
  references into a store of buffers, because \<^verbatim>\<open>np.fliplr\<close> and basic slicing return views
  that share the buffer of their argument, and \<^verbatim>\<open>cv2.addWeighted\<close> can write into an
  array that the caller owns. A reference names the buffer, the window of rows and columns it
  shows, and whether the columns are read in reverse.
\<close>

type_synonym 'a img = "'a list list list"

record ndarray =
  base :: nat
  row_lo :: nat
  row_hi :: nat
  col_lo :: nat
  col_hi :: nat
  flipped :: bool

text \<open>
  The world a call runs in: the buffers, and the states of the two random generators the
  module draws from (\<^verbatim>\<open>random\<close> and \<^verbatim>\<open>np.random\<close>), each an endless
  sequence of raw numbers.
\<close>

type_synonym source = "nat \<Rightarrow> nat"

definition next_raw :: "source \<Rightarrow> nat" where
  "next_raw s = s 0"

definition advance :: "source \<Rightarrow> source" where
  "advance s = (\<lambda>n. s (Suc n))"

record 'a world =
  arrays :: "'a img list"
  py_rand :: source
  np_rand :: source

definition shape :: "'a img \<Rightarrow> nat \<times> nat \<times> nat" where
  "shape im =
     (length im,
      (case im of [] \<Rightarrow> 0 | r # _ \<Rightarrow> length r),
      (case im of (p # _) # _ \<Rightarrow> length p | _ \<Rightarrow> 0))"

definition rect :: "nat \<Rightarrow> nat \<Rightarrow> nat \<Rightarrow> 'a img \<Rightarrow> bool" where
  "rect h wd c im \<longleftrightarrow>
     length im = h \<and> list_all (\<lambda>r. length r = wd \<and> list_all (\<lambda>p. length p = c) r) im"

definition window :: "ndarray \<Rightarrow> 'a img \<Rightarrow> 'a img" where
  "window a b =
     map (\<lambda>r. take (col_hi a - col_lo a) (drop (col_lo a) r))
       (take (row_hi a - row_lo a) (drop (row_lo a) b))"

definition deref :: "'a world \<Rightarrow> ndarray \<Rightarrow> 'a img" where
  "deref w a =
     (let v = window a (arrays w ! base a)
      in if flipped a then map rev v else v)"

definition valid_ref :: "'a world \<Rightarrow> ndarray \<Rightarrow> bool" where
  "valid_ref w a \<longleftrightarrow>
     base a < length (arrays w) \<and> row_lo a \<le> row_hi a \<and>
     row_hi a \<le> length (arrays w ! base a) \<and> col_lo a \<le> col_hi a \<and>
     list_all (\<lambda>r. col_hi a \<le> length r) (arrays w ! base a)"

definition new_array :: "'a world \<Rightarrow> 'a img \<Rightarrow> ndarray \<times> 'a world" where
  "new_array w v =
     (\<lparr>base = length (arrays w), row_lo = 0, row_hi = length v,
       col_lo = 0, col_hi = fst (snd (shape v)), flipped = False\<rparr>,
      w\<lparr>arrays := arrays w @ [v]\<rparr>)"

text \<open>
  Storing a value through a reference: the window of the buffer is replaced, the rest of
  the buffer stays. OpenCV's Python bindings refuse an output array whose layout is not
  that of a \<^verbatim>\<open>cv::Mat\<close>; a column-reversed view (negative stride) is such an array.
\<close>

definition put_window :: "ndarray \<Rightarrow> 'a img \<Rightarrow> 'a img \<Rightarrow> 'a img" where
  "put_window a b v =
     take (row_lo a) b @
     map2 (\<lambda>r nr. take (col_lo a) r @ nr @ drop (col_hi a) r)
       (take (row_hi a - row_lo a) (drop (row_lo a) b)) v @
     drop (row_hi a) b"

definition write_array :: "'a world \<Rightarrow> ndarray \<Rightarrow> 'a img \<Rightarrow> py_error + 'a world" where
  "write_array w a v =
     (if flipped a then Inl cv2_error
      else Inr (w\<lparr>arrays := (arrays w)[base a := put_window a (arrays w ! base a) v]\<rparr>))"

definition thenE ::
  "py_error + ('b \<times> 's) \<Rightarrow> ('b \<Rightarrow> 's \<Rightarrow> py_error + 'c) \<Rightarrow> py_error + 'c" where
  "thenE m f = (case m of Inl e \<Rightarrow> Inl e | Inr (x, s) \<Rightarrow> f x s)"

definition andThen :: "py_error + 'b \<Rightarrow> ('b \<Rightarrow> py_error + 'c) \<Rightarrow> py_error + 'c" where
  "andThen m f = (case m of Inl e \<Rightarrow> Inl e | Inr x \<Rightarrow> f x)"

subsection \<open>Random draws\<close>

text \<open>
  A draw takes the next raw number of its generator and maps it into the range asked for,
  so every raw number gives a value the real generator can return, and every such value
  comes from some raw number.
\<close>

definition unit_float :: "nat \<Rightarrow> real" where
  "unit_float raw = real (raw mod 2 ^ 53) / 2 ^ 53"

definition random_random :: "'a world \<Rightarrow> real \<times> 'a world" where
  "random_random w = (unit_float (next_raw (py_rand w)), w\<lparr>py_rand := advance (py_rand w)\<rparr>)"

text \<open>
  \<^verbatim>\<open>random.randint(a, b)\<close> is \<^verbatim>\<open>randrange(a, b + 1)\<close>, which raises ValueError for a
  bound that is not a whole number and for an empty range.
\<close>

definition random_randint :: "'a world \<Rightarrow> real \<Rightarrow> real \<Rightarrow> py_error + (int \<times> 'a world)" where
  "random_randint w a b =
     (if real_of_int \<lfloor>a\<rfloor> \<noteq> a then Inl ValueError
      else if real_of_int \<lfloor>b + 1\<rfloor> \<noteq> b + 1 then Inl ValueError
      else if \<lfloor>b + 1\<rfloor> - \<lfloor>a\<rfloor> \<le> 0 then Inl ValueError
      else Inr (\<lfloor>a\<rfloor> + int (next_raw (py_rand w)) mod (\<lfloor>b + 1\<rfloor> - \<lfloor>a\<rfloor>),
                w\<lparr>py_rand := advance (py_rand w)\<rparr>))"

definition np_random_uniform :: "'a world \<Rightarrow> real \<Rightarrow> real \<Rightarrow> real \<times> 'a world" where
  "np_random_uniform w lo hi =
     (lo + (hi - lo) * unit_float (next_raw (np_rand w)), w\<lparr>np_rand := advance (np_rand w)\<rparr>)"

definition np_random_randint :: "'a world \<Rightarrow> int \<Rightarrow> int \<Rightarrow> py_error + (int \<times> 'a world)" where
  "np_random_randint w lo hi =
     (if hi \<le> lo then Inl ValueError
      else Inr (lo + int (next_raw (np_rand w)) mod (hi - lo), w\<lparr>np_rand := advance (np_rand w)\<rparr>))"

section \<open>The driving log\<close>

text \<open>
  A row of the log, with the columns in the order of \<^verbatim>\<open>COLUMNS\<close>. The three camera
  columns hold strings and the other four hold floats, as the log reader types them.
\<close>

record log_row =
  center :: string
  left :: string
  right :: string
  steering :: real
  throttle :: real
  brake :: real
  speed :: real

datatype cell = Str string | Num real

definition COLUMNS :: "string list" where
  "COLUMNS = [''center'', ''left'', ''right'', ''steering'', ''throttle'', ''brake'', ''speed'']"

definition HORIZON :: nat where "HORIZON = 60"

definition BONNET :: nat where "BONNET = 136"

definition offset :: real where "offset = 1.0"

definition dist0 :: real where "dist0 = 15.0"

definition STEERING_COEFFICIENT :: real where
  "STEERING_COEFFICIENT = offset / dist0 * 360 / (2 * pi) / 25.0"

fun index_of :: "'b list \<Rightarrow> 'b \<Rightarrow> py_error + nat" where
  "index_of [] x = Inl ValueError"
| "index_of (y # ys) x =
     (if y = x then Inr 0
      else (case index_of ys x of Inl e \<Rightarrow> Inl e | Inr i \<Rightarrow> Inr (Suc i)))"

definition row_values :: "log_row \<Rightarrow> cell list" where
  "row_values r =
     [Str (center r), Str (left r), Str (right r), Num (steering r),
      Num (throttle r), Num (brake r), Num (speed r)]"

text \<open>Indexing a sequence with a Python integer: a negative index counts from the end.\<close>

definition getitem :: "'b list \<Rightarrow> int \<Rightarrow> py_error + 'b" where
  "getitem xs i =
     (if 0 \<le> i \<and> i < int (length xs) then Inr (xs ! nat i)
      else if i < 0 \<and> - i \<le> int (length xs) then Inr (xs ! nat (int (length xs) + i))
      else Inl IndexError)"

definition is_space :: "char \<Rightarrow> bool" where
  "is_space c \<longleftrightarrow>
     of_char c \<in> {9, 10, 11, 12, 13, 28, 29, 30, 31, 32 :: nat}"

definition strip :: "string \<Rightarrow> string" where
  "strip s = rev (dropWhile is_space (rev (dropWhile is_space s)))"

definition cell_strip :: "cell \<Rightarrow> py_error + string" where
  "cell_strip c = (case c of Str s \<Rightarrow> Inr (strip s) | Num _ \<Rightarrow> Inl AttributeError)"

definition cell_float :: "cell \<Rightarrow> py_error + real" where
  "cell_float c = (case c of Num x \<Rightarrow> Inr x | Str _ \<Rightarrow> Inl TypeError)"

text \<open>
  \<^verbatim>\<open>get_random_camera_data(csv, index)\<close>. The steering cell of a typed row is a float, so
  reading it as one never fails.
\<close>

definition get_random_camera_data ::
  "'a world \<Rightarrow> log_row list \<Rightarrow> int \<Rightarrow> py_error + ((string \<times> real) \<times> 'a world)" where
  "get_random_camera_data w csv index =
     thenE (np_random_randint w 0 3) (\<lambda>rnd w1.
       andThen (getitem csv index) (\<lambda>row.
       andThen (index_of COLUMNS ''center'') (\<lambda>ci.
       andThen (getitem (row_values row) (int ci + rnd)) (\<lambda>c.
       andThen (cell_strip c) (\<lambda>im.
       andThen (index_of COLUMNS ''steering'') (\<lambda>si.
       andThen (getitem (row_values row) (int si)) (\<lambda>ac.
       andThen (cell_float ac) (\<lambda>angle.
       andThen (index_of COLUMNS ''left'') (\<lambda>li.
         if rnd = int li then Inr ((im, angle + STEERING_COEFFICIENT), w1)
         else andThen (index_of COLUMNS ''right'') (\<lambda>ri.
           if rnd = int ri then Inr ((im, angle - STEERING_COEFFICIENT), w1)
           else Inr ((im, angle), w1)))))))))))"

section \<open>The image library\<close>

text \<open>
  The functions of numpy, OpenCV and matplotlib that the module calls are modelled by what
  their documentation fixes: which array they write, the shape of what they return, and
  when they refuse their input. The arithmetic on pixel values (rasterising a polygon,
  interpolation, colour conversion, saturating casts) and the file system are parameters.
\<close>

record 'a cvlib =
  covered :: "(int \<times> int) list \<Rightarrow> nat \<Rightarrow> nat \<Rightarrow> bool"
  fill_value :: "nat \<Rightarrow> 'a"
  blend :: "'a \<Rightarrow> real \<Rightarrow> 'a \<Rightarrow> real \<Rightarrow> real \<Rightarrow> 'a"
  getAffineTransform :: "(real \<times> real) list \<Rightarrow> (real \<times> real) list \<Rightarrow> real list list"
  warp_sample :: "'a img \<Rightarrow> real list list \<Rightarrow> nat \<Rightarrow> nat \<Rightarrow> nat \<Rightarrow> 'a"
  rgb2hsv :: "'a \<times> 'a \<times> 'a \<Rightarrow> 'a \<times> 'a \<times> 'a"
  hsv2rgb :: "'a \<times> 'a \<times> 'a \<Rightarrow> 'a \<times> 'a \<times> 'a"
  scale :: "'a \<Rightarrow> real \<Rightarrow> 'a"
  resize_sample :: "'a img \<Rightarrow> nat \<times> nat \<Rightarrow> nat \<Rightarrow> nat \<Rightarrow> nat \<Rightarrow> 'a"
  imread :: "string \<Rightarrow> py_error + 'a img"

text \<open>\<^verbatim>\<open>np.fliplr(m)\<close> is the view \<^verbatim>\<open>m[:, ::-1]\<close>: no buffer is read or written.\<close>

definition np_fliplr :: "ndarray \<Rightarrow> ndarray" where
  "np_fliplr a = a\<lparr>flipped := \<not> flipped a\<rparr>"

definition ndarray_copy :: "'a world \<Rightarrow> ndarray \<Rightarrow> ndarray \<times> 'a world" where
  "ndarray_copy w a = new_array w (deref w a)"

text \<open>
  Basic slicing \<^verbatim>\<open>[lo:hi]\<close> of an axis of length \<open>n\<close> with bounds that are not negative:
  the bounds are clipped to the axis.
\<close>

definition slice_bounds :: "nat \<Rightarrow> nat \<Rightarrow> nat \<Rightarrow> nat \<times> nat" where
  "slice_bounds lo hi n = (min lo n, max (min lo n) (min hi n))"

text \<open>
  The view \<^verbatim>\<open>a[r0:r1, c0:c1, :]\<close>. The bounds are positions in the view; in a
  column-reversed view they count from the other end of the buffer's columns.
\<close>

definition slice_view :: "'a world \<Rightarrow> ndarray \<Rightarrow> nat \<Rightarrow> nat \<Rightarrow> nat \<Rightarrow> nat \<Rightarrow> ndarray" where
  "slice_view w a r0 r1 c0 c1 =
     (let (rs, re) = slice_bounds r0 r1 (row_hi a - row_lo a);
          (cs, ce) = slice_bounds c0 c1 (col_hi a - col_lo a)
      in if flipped a
         then a\<lparr>row_lo := row_lo a + rs, row_hi := row_lo a + re,
                col_lo := col_hi a - ce, col_hi := col_hi a - cs\<rparr>
         else a\<lparr>row_lo := row_lo a + rs, row_hi := row_lo a + re,
                col_lo := col_lo a + cs, col_hi := col_lo a + ce\<rparr>)"

text \<open>
  \<^verbatim>\<open>cv2.fillPoly(img, pts, color)\<close> draws into \<open>img\<close>. A point is \<open>(x, y)\<close> with \<open>x\<close>
  the column and \<open>y\<close> the row, as everywhere in OpenCV.
\<close>

definition fill_image :: "'a cvlib \<Rightarrow> (int \<times> int) list \<Rightarrow> 'a img \<Rightarrow> 'a img" where
  "fill_image K pts im =
     map (\<lambda>y. map (\<lambda>x. let px = im ! y ! x in
                       if covered K pts x y then map (fill_value K) [0..<length px] else px)
                [0..<length (im ! y)])
       [0..<length im]"

definition fillPoly :: "'a cvlib \<Rightarrow> 'a world \<Rightarrow> ndarray \<Rightarrow> (int \<times> int) list \<Rightarrow> py_error + 'a world" where
  "fillPoly K w a pts = write_array w a (fill_image K pts (deref w a))"

text \<open>
  \<^verbatim>\<open>cv2.addWeighted(src1, alpha, src2, beta, gamma, dst)\<close>: the sources must agree in
  shape; the result is stored in \<open>dst\<close> when \<open>dst\<close> has that shape (a fresh array is made
  otherwise), and the array that holds the result is returned.
\<close>

definition blend_images :: "'a cvlib \<Rightarrow> 'a img \<Rightarrow> real \<Rightarrow> 'a img \<Rightarrow> real \<Rightarrow> real \<Rightarrow> 'a img" where
  "blend_images K v1 alpha v2 beta gamma =
     map2 (map2 (map2 (\<lambda>p q. blend K p alpha q beta gamma))) v1 v2"

definition addWeighted ::
  "'a cvlib \<Rightarrow> 'a world \<Rightarrow> ndarray \<Rightarrow> real \<Rightarrow> ndarray \<Rightarrow> real \<Rightarrow> real \<Rightarrow> ndarray \<Rightarrow>
   py_error + (ndarray \<times> 'a world)" where
  "addWeighted K w src1 alpha src2 beta gamma dst =
     (let v1 = deref w src1; v2 = deref w src2 in
      if shape v1 \<noteq> shape v2 then Inl cv2_error
      else let v = blend_images K v1 alpha v2 beta gamma in
        if shape (deref w dst) = shape v
        then andThen (write_array w dst v) (\<lambda>w1. Inr (dst, w1))
        else Inr (new_array w v))"

text \<open>
  \<^verbatim>\<open>cv2.warpAffine(src, M, (cols, rows), borderMode=1)\<close> returns a fresh array of \<open>rows\<close>
  rows and \<open>cols\<close> columns with the channels of \<open>src\<close>; an empty source or size is refused.
\<close>

definition warpAffine ::
  "'a cvlib \<Rightarrow> 'a world \<Rightarrow> ndarray \<Rightarrow> real list list \<Rightarrow> nat \<times> nat \<Rightarrow> py_error + (ndarray \<times> 'a world)" where
  "warpAffine K w src M dsize =
     (let v = deref w src; (h, wd, ch) = shape v; (cols, rows) = dsize in
      if h = 0 \<or> wd = 0 \<or> ch = 0 \<or> cols = 0 \<or> rows = 0 then Inl cv2_error
      else Inr (new_array w
             (map (\<lambda>y. map (\<lambda>x. map (\<lambda>c. warp_sample K v M y x c) [0..<ch]) [0..<cols])
                [0..<rows])))"

text \<open>
  \<^verbatim>\<open>cv2.cvtColor\<close> returns a fresh three-channel array. \<^verbatim>\<open>COLOR_RGB2HSV\<close> takes three or
  four channels (a fourth is dropped), \<^verbatim>\<open>COLOR_HSV2RGB\<close> takes three.
\<close>

definition convert_pixel :: "('a \<times> 'a \<times> 'a \<Rightarrow> 'a \<times> 'a \<times> 'a) \<Rightarrow> 'a list \<Rightarrow> 'a list" where
  "convert_pixel f px = (case f (px ! 0, px ! 1, px ! 2) of (a, b, c) \<Rightarrow> [a, b, c])"

definition cvtColor_RGB2HSV :: "'a cvlib \<Rightarrow> 'a world \<Rightarrow> ndarray \<Rightarrow> py_error + (ndarray \<times> 'a world)" where
  "cvtColor_RGB2HSV K w src =
     (let v = deref w src; (h, wd, ch) = shape v in
      if h = 0 \<or> wd = 0 \<or> (ch \<noteq> 3 \<and> ch \<noteq> 4) then Inl cv2_error
      else Inr (new_array w (map (map (convert_pixel (rgb2hsv K))) v)))"

definition cvtColor_HSV2RGB :: "'a cvlib \<Rightarrow> 'a world \<Rightarrow> ndarray \<Rightarrow> py_error + (ndarray \<times> 'a world)" where
  "cvtColor_HSV2RGB K w src =
     (let v = deref w src; (h, wd, ch) = shape v in
      if h = 0 \<or> wd = 0 \<or> ch \<noteq> 3 then Inl cv2_error
      else Inr (new_array w (map (map (convert_pixel (hsv2rgb K))) v)))"

text \<open>
  \<^verbatim>\<open>cv2.resize(src, dsize, ...)\<close> with \<open>dsize = (width, height)\<close> returns a fresh array of
  that size with the channels of \<open>src\<close>.
\<close>

definition cv2_resize ::
  "'a cvlib \<Rightarrow> 'a world \<Rightarrow> ndarray \<Rightarrow> nat \<times> nat \<Rightarrow> py_error + (ndarray \<times> 'a world)" where
  "cv2_resize K w src dsize =
     (let v = deref w src; (h, wd, ch) = shape v; (cols, rows) = dsize in
      if h = 0 \<or> wd = 0 \<or> ch = 0 \<or> cols = 0 \<or> rows = 0 then Inl cv2_error
      else Inr (new_array w
             (map (\<lambda>y. map (\<lambda>x. map (\<lambda>c. resize_sample K v dsize y x c) [0..<ch]) [0..<cols])
                [0..<rows])))"

section \<open>The transforms\<close>

text \<open>\<^verbatim>\<open>random_flip(image, steering_angle, flipping_prob=0.5)\<close>\<close>

definition random_flip ::
  "'a world \<Rightarrow> ndarray \<Rightarrow> real \<Rightarrow> real \<Rightarrow> (ndarray \<times> real) \<times> 'a world" where
  "random_flip w img steering_angle flipping_prob =
     (let (u, w1) = random_random w in
      if u < flipping_prob then ((np_fliplr img, -1 * steering_angle), w1)
      else ((img, steering_angle), w1))"

text \<open>\<^verbatim>\<open>get_shadow_poly(max_x, max_y)\<close>; a point \<^verbatim>\<open>[x, y]\<close> is a pair.\<close>

definition get_shadow_poly ::
  "'a world \<Rightarrow> int \<Rightarrow> int \<Rightarrow> py_error + ((int \<times> int) list \<times> 'a world)" where
  "get_shadow_poly w max_x max_y =
     (let (horizontal, w0) = np_random_uniform w 0 1 in
      if horizontal < 0.5 then
        thenE (random_randint w0 0 (real_of_int max_x / 2)) (\<lambda>x1 w1.
        thenE (random_randint w1 (real_of_int max_x / 2) (real_of_int max_x)) (\<lambda>x2 w2.
        thenE (random_randint w2 (real_of_int max_x / 2) (real_of_int max_x)) (\<lambda>x3 w3.
        thenE (random_randint w3 0 (real_of_int max_x / 2)) (\<lambda>x4 w4.
          Inr ([(x1, 0), (x2, 0), (x3, max_y), (x4, max_y)], w4)))))
      else
        thenE (random_randint w0 0 (real_of_int max_y / 2)) (\<lambda>y1 w1.
        thenE (random_randint w1 (real_of_int max_y / 2) (real_of_int max_y)) (\<lambda>y2 w2.
        thenE (random_randint w2 (real_of_int max_y / 2) (real_of_int max_y)) (\<lambda>y3 w3.
        thenE (random_randint w3 0 (real_of_int max_y / 2)) (\<lambda>y4 w4.
          Inr ([(0, y1), (0, y2), (max_x, y3), (max_x, y4)], w4))))))"

text \<open>
  \<^verbatim>\<open>random_shadows(image)\<close>. The last argument of \<^verbatim>\<open>cv2.addWeighted\<close> is its destination:
  the call passes \<open>image\<close> there.
\<close>

definition random_shadows :: "'a cvlib \<Rightarrow> 'a world \<Rightarrow> ndarray \<Rightarrow> py_error + (ndarray \<times> 'a world)" where
  "random_shadows K w img =
     (let (shadows, w1) = ndarray_copy w img;
          (shape0, shape1, shape2) = shape (deref w1 shadows)
      in thenE (get_shadow_poly w1 (int shape0) (int shape1)) (\<lambda>poly w2.
           andThen (fillPoly K w2 shadows poly) (\<lambda>w3.
             let (alpha, w4) = np_random_uniform w3 0.6 0.9
             in addWeighted K w4 shadows alpha img (1 - alpha) 0 img)))"

text \<open>\<^verbatim>\<open>random_shear(image, steering_angle, shear_range=200)\<close>\<close>

definition random_shear ::
  "'a cvlib \<Rightarrow> 'a world \<Rightarrow> ndarray \<Rightarrow> real \<Rightarrow> int \<Rightarrow> py_error + ((ndarray \<times> real) \<times> 'a world)" where
  "random_shear K w img steering_angle shear_range =
     (let (rows, cols, ch) = shape (deref w img) in
      thenE (np_random_randint w (- shear_range) (shear_range + 1)) (\<lambda>dx w1.
        if rows = 0 then Inl ZeroDivisionError
        else
          let random_point = (real cols / 2 + real_of_int dx, real rows / 2);
              pts1 = [(0, real rows), (real cols, real rows), (real cols / 2, real rows / 2)];
              pts2 = [(0, real rows), (real cols, real rows), random_point];
              dsteering = real_of_int dx / (real rows / 2) * 360 / (2 * pi * 25.0) / 6.0;
              M = getAffineTransform K pts1 pts2
          in thenE (warpAffine K w1 img M (cols, rows)) (\<lambda>img' w2.
               Inr ((img', steering_angle + dsteering), w2))))"

text \<open>\<^verbatim>\<open>crop(image)\<close>\<close>

definition crop :: "'a world \<Rightarrow> ndarray \<Rightarrow> ndarray" where
  "crop w img =
     (let (shape0, shape1, shape2) = shape (deref w img)
      in slice_view w img HORIZON BONNET 0 shape1)"

text \<open>\<^verbatim>\<open>resize(image, resize_dim)\<close>\<close>

definition resize ::
  "'a cvlib \<Rightarrow> 'a world \<Rightarrow> ndarray \<Rightarrow> nat \<times> nat \<Rightarrow> py_error + (ndarray \<times> 'a world)" where
  "resize K w img resize_dim = cv2_resize K w img resize_dim"

text \<open>\<^verbatim>\<open>random_brightness(image, median=0.8, dev=0.4)\<close>\<close>

definition random_brightness ::
  "'a cvlib \<Rightarrow> 'a world \<Rightarrow> ndarray \<Rightarrow> real \<Rightarrow> real \<Rightarrow> py_error + (ndarray \<times> 'a world)" where
  "random_brightness K w img median dev =
     thenE (cvtColor_RGB2HSV K w img) (\<lambda>hsv w1.
       let (u, w2) = np_random_uniform w1 (- 1.0) 1.0;
           random_bright = median + dev * u
       in andThen
            (write_array w2 hsv
               (map (map (\<lambda>px. px[2 := scale K (px ! 2) random_bright])) (deref w2 hsv)))
            (\<lambda>w3. cvtColor_HSV2RGB K w3 hsv))"

text \<open>\<^verbatim>\<open>generate_new_image(image, steering_angle, do_shear_prob=0.5)\<close>\<close>

definition generate_new_image ::
  "'a cvlib \<Rightarrow> 'a world \<Rightarrow> ndarray \<Rightarrow> real \<Rightarrow> real \<Rightarrow> py_error + ((ndarray \<times> real) \<times> 'a world)" where
  "generate_new_image K w img steering_angle do_shear_prob =
     (let (u, w1) = random_random w in
      if u < do_shear_prob then random_shear K w1 img steering_angle 200
      else Inr ((img, steering_angle), w1))"

section \<open>Batches\<close>

text \<open>
  \<^verbatim>\<open>np.random.randint(0, high, size)\<close>: \<open>size\<close> draws, ValueError when the range is empty.
\<close>

fun np_random_randint_array ::
  "'a world \<Rightarrow> int \<Rightarrow> nat \<Rightarrow> py_error + (int list \<times> 'a world)" where
  "np_random_randint_array w high 0 = (if high \<le> 0 then Inl ValueError else Inr ([], w))"
| "np_random_randint_array w high (Suc n) =
     thenE (np_random_randint w 0 high) (\<lambda>i w1.
       thenE (np_random_randint_array w1 high n) (\<lambda>rest w2. Inr (i # rest, w2)))"

fun next_batch_loop ::
  "'a world \<Rightarrow> log_row list \<Rightarrow> int list \<Rightarrow> (string \<times> real) list \<Rightarrow>
   py_error + ((string \<times> real) list \<times> 'a world)" where
  "next_batch_loop w samples [] batch = Inr (batch, w)"
| "next_batch_loop w samples (index # rest) batch =
     thenE (get_random_camera_data w samples index) (\<lambda>data w1.
       next_batch_loop w1 samples rest (batch @ [data]))"

text \<open>\<^verbatim>\<open>next_batch(samples, batch_size=64)\<close>\<close>

definition next_batch ::
  "'a world \<Rightarrow> log_row list \<Rightarrow> nat \<Rightarrow> py_error + ((string \<times> real) list \<times> 'a world)" where
  "next_batch w samples batch_size =
     thenE (np_random_randint_array w (int (length samples)) batch_size) (\<lambda>random_rows w1.
       next_batch_loop w1 samples random_rows [])"

text \<open>
  The name \<^verbatim>\<open>resize_dim\<close> is read in \<^verbatim>\<open>generate_next_batch\<close>. It is not a parameter or a
  local variable of that function, the module binds no such name and it is no builtin, so
  reading it raises NameError.
\<close>

definition resize_dim :: "py_error + (nat \<times> nat)" where
  "resize_dim = Inl NameError"

text \<open>The \<^verbatim>\<open>for\<close> loop of \<^verbatim>\<open>generate_next_batch\<close> over the sampled pairs.\<close>

fun batch_loop ::
  "'a cvlib \<Rightarrow> bool \<Rightarrow> (string \<times> real) list \<Rightarrow> 'a world \<Rightarrow> ndarray list \<Rightarrow> real list \<Rightarrow>
   py_error + ((ndarray list \<times> real list) \<times> 'a world)" where
  "batch_loop K augment [] w X_batch y_batch = Inr ((X_batch, y_batch), w)"
| "batch_loop K augment ((img_file, angle) # rest) w X_batch y_batch =
     andThen (imread K img_file) (\<lambda>v.
       let (img, w1) = new_array w v in
       if augment then
         thenE (generate_new_image K w1 img angle 0.5) (\<lambda>r w2.
           batch_loop K augment rest w2 (X_batch @ [fst r]) (y_batch @ [snd r]))
       else
         let img1 = crop w1 img in
         andThen resize_dim (\<lambda>dim.
           thenE (resize K w1 img1 dim) (\<lambda>img2 w2.
             batch_loop K augment rest w2 (X_batch @ [img2]) (y_batch @ [angle]))))"

text \<open>
  One pass through the body of \<^verbatim>\<open>while True\<close>, up to the \<^verbatim>\<open>yield\<close>: the value
  yielded is the pair of the img contents and the labels.
\<close>

definition next_yield ::
  "'a cvlib \<Rightarrow> 'a world \<Rightarrow> log_row list \<Rightarrow> nat \<Rightarrow> bool \<Rightarrow>
   py_error + (('a img list \<times> real list) \<times> 'a world)" where
  "next_yield K w samples batch_size augment =
     thenE (next_batch w samples batch_size) (\<lambda>images w1.
       thenE (batch_loop K augment images w1 [] []) (\<lambda>b w2.
         Inr ((map (deref w2) (fst b), snd b), w2)))"

text \<open>
  \<^verbatim>\<open>generate_next_batch(samples, batch_size=64, augment=True)\<close> is a generator that never
  finishes by itself. Its model gives what the first \<open>n\<close> calls of \<^verbatim>\<open>next\<close> deliver: the
  batches yielded, and the exception that ended the generator if one was raised.
\<close>

fun generate_next_batch ::
  "'a cvlib \<Rightarrow> 'a world \<Rightarrow> log_row list \<Rightarrow> nat \<Rightarrow> bool \<Rightarrow> nat \<Rightarrow>
   ('a img list \<times> real list) list \<times> py_error option" where
  "generate_next_batch K w samples batch_size augment 0 = ([], None)"
| "generate_next_batch K w samples batch_size augment (Suc n) =
     (case next_yield K w samples batch_size augment of
        Inl e \<Rightarrow> ([], Some e)
      | Inr (b, w1) \<Rightarrow>
          (case generate_next_batch K w1 samples batch_size augment n of
             (bs, r) \<Rightarrow> (b # bs, r)))"

section \<open>Concrete inputs\<close>

text \<open>
  A small image, a reference to it and a world that holds it, with generators that repeat
  one raw number each; the theorems below are run on them.
\<close>

definition demo_image :: "nat img" where
  "demo_image = [[[10, 20, 30], [40, 50, 60]], [[70, 80, 90], [100, 110, 120]]]"

definition demo_ref :: ndarray where
  "demo_ref = \<lparr>base = 0, row_lo = 0, row_hi = 2, col_lo = 0, col_hi = 2, flipped = False\<rparr>"

definition demo_world :: "nat \<Rightarrow> nat \<Rightarrow> nat world" where
  "demo_world py np = \<lparr>arrays = [demo_image], py_rand = (\<lambda>n. py), np_rand = (\<lambda>n. np)\<rparr>"

section \<open>Reading through references\<close>

lemma deref_np_fliplr: "deref w (np_fliplr a) = map rev (deref w a)"
  by (simp add: deref_def np_fliplr_def window_def Let_def)

lemma deref_py_rand: "deref (w\<lparr>py_rand := s\<rparr>) a = deref w a"
  by (simp add: deref_def)

section \<open>Horizontal flip\<close>

text \<open>
  Claim C6. When the draw of \<^verbatim>\<open>random.random()\<close> is below \<open>flipping_prob\<close>, \<^verbatim>\<open>random_flip\<close>
  returns an array that reads as the input with every row reversed (the horizontal mirror)
  and the negated angle; otherwise it returns the input array and the angle as they came.
  No buffer changes in either case.
\<close>

theorem random_flip_mirror:
  "case random_flip w img theta p of ((img', theta'), w') \<Rightarrow>
     (fst (random_random w) < p \<longrightarrow>
        deref w' img' = map rev (deref w img) \<and> theta' = - theta \<and> arrays w' = arrays w) \<and>
     (\<not> fst (random_random w) < p \<longrightarrow>
        img' = img \<and> deref w' img' = deref w img \<and> theta' = theta \<and> arrays w' = arrays w)"
  by (auto simp: random_flip_def random_random_def deref_np_fliplr deref_py_rand split: if_splits)

theorem random_flip_mirror_witness:
  "fst (random_random (demo_world 0 0)) < 1 / 2 \<and>
   (case random_flip (demo_world 0 0) demo_ref (1 / 4) (1 / 2) of ((img', theta'), w') \<Rightarrow>
      deref w' img' = [[[40, 50, 60], [10, 20, 30]], [[100, 110, 120], [70, 80, 90]]] \<and>
      theta' = - (1 / 4)) \<and>
   \<not> fst (random_random (demo_world (2 ^ 52) 0)) < 1 / 2 \<and>
   (case random_flip (demo_world (2 ^ 52) 0) demo_ref (1 / 4) (1 / 2) of ((img', theta'), w') \<Rightarrow>
      img' = demo_ref \<and> theta' = 1 / 4)"
  using random_flip_mirror [where w = "demo_world 0 0" and img = demo_ref
          and theta = "1 / 4" and p = "1 / 2"]
        random_flip_mirror [where w = "demo_world (2 ^ 52) 0" and img = demo_ref
          and theta = "1 / 4" and p = "1 / 2"]
  by (simp add: random_flip_def random_random_def unit_float_def next_raw_def demo_world_def
        demo_ref_def demo_image_def deref_def window_def np_fliplr_def)

end
